theory Spec2Isabelle
  imports Main
begin

section \<open>Strings of the backend (JavaScript)\<close>

text \<open>
  A string is a list of characters. The model covers ASCII text: \<open>toLowerCase\<close> maps the
  letters A to Z to a to z and leaves every other character alone, and \<open>trim\<close> strips the
  ASCII white space and line terminators (tab, line feed, vertical tab, form feed, carriage
  return, space). On such text the functions below compute what the methods of the same
  name compute in JavaScript.
\<close>

definition toLowerChar :: "char \<Rightarrow> char" where
  "toLowerChar c =
     (case map_of (zip ''ABCDEFGHIJKLMNOPQRSTUVWXYZ'' ''abcdefghijklmnopqrstuvwxyz'') c of
        Some l \<Rightarrow> l
      | None \<Rightarrow> c)"

definition toLowerCase :: "string \<Rightarrow> string" where
  "toLowerCase s = map toLowerChar s"

text \<open>\<open>s.startsWith(p)\<close>: the first \<open>length p\<close> characters of \<open>s\<close> are \<open>p\<close>.\<close>

definition startsWith :: "string \<Rightarrow> string \<Rightarrow> bool" where
  "startsWith s p = (take (length p) s = p)"

text \<open>\<open>s.includes(p)\<close>: \<open>p\<close> starts at some position of \<open>s\<close>, searched from the left.\<close>

fun includes_str :: "string \<Rightarrow> string \<Rightarrow> bool" where
  "includes_str [] p = (p = [])"
| "includes_str (c # cs) p = (startsWith (c # cs) p \<or> includes_str cs p)"

definition isWhiteSpace :: "char \<Rightarrow> bool" where
  "isWhiteSpace c = (c \<in> set [CHR 0x09, CHR 0x0A, CHR 0x0B, CHR 0x0C, CHR 0x0D, CHR 0x20])"

definition trim :: "string \<Rightarrow> string" where
  "trim s = rev (dropWhile isWhiteSpace (rev (dropWhile isWhiteSpace s)))"

text \<open>
  \<open>s.split(sep)\<close> for a separator of one character: every separator ends a token, so the
  empty string gives one empty token and a trailing separator gives a last empty token.
\<close>

fun split :: "char \<Rightarrow> string \<Rightarrow> string list" where
  "split sep [] = [[]]"
| "split sep (c # cs) =
     (if c = sep then [] # split sep cs
      else (case split sep cs of
              [] \<Rightarrow> [[c]]
            | t # ts \<Rightarrow> (c # t) # ts))"

section \<open>The backend rule matcher\<close>

text \<open>A stored condition, \<open>{ type: string; value: string }\<close>.\<close>

record condition =
  cond_type :: string
  cond_value :: string

text \<open>
  The loop of \<open>checkConditions\<close> over the conditions, in order: a \<open>contains\<close>,
  \<open>starts_with\<close> or \<open>keyword\<close> condition that fails returns false at once, any other
  type falls through the \<open>switch\<close>, and the end of the list returns true.
\<close>

fun checkConditions_loop :: "string \<Rightarrow> condition list \<Rightarrow> bool" where
  "checkConditions_loop lowerContent [] = True"
| "checkConditions_loop lowerContent (condition # rest) =
     (if cond_type condition = ''contains'' then
        (if \<not> includes_str lowerContent (toLowerCase (cond_value condition)) then False
         else checkConditions_loop lowerContent rest)
      else if cond_type condition = ''starts_with'' then
        (if \<not> startsWith lowerContent (toLowerCase (cond_value condition)) then False
         else checkConditions_loop lowerContent rest)
      else if cond_type condition = ''keyword'' then
        (let keywords = map (\<lambda>k. toLowerCase (trim k)) (split CHR '','' (cond_value condition))
         in if \<not> list_ex (\<lambda>k. includes_str lowerContent k) keywords then False
            else checkConditions_loop lowerContent rest)
      else checkConditions_loop lowerContent rest)"

definition checkConditions :: "string \<Rightarrow> condition list \<Rightarrow> bool" where
  "checkConditions content conditions =
     (let lowerContent = toLowerCase content in checkConditions_loop lowerContent conditions)"

subsection \<open>The condition evaluator as the specification words it\<close>

text \<open>
  The specification's \<open>evaluate(text, condition)\<close> (section 4.1), written from its
  sentences and not from the code: \<open>contains\<close> is true iff the lower-cased text contains
  the lower-cased value, \<open>starts_with\<close> iff it begins with it, \<open>keyword\<close> iff any token
  of the value, split on commas, trimmed and lower-cased, is a substring of the lower-cased
  text; every other type is always true.
\<close>

definition spec_evaluate :: "string \<Rightarrow> condition \<Rightarrow> bool" where
  "spec_evaluate txt c =
     (if cond_type c = ''contains'' then
        (\<exists>pre suf. toLowerCase txt = pre @ toLowerCase (cond_value c) @ suf)
      else if cond_type c = ''starts_with'' then
        (\<exists>suf. toLowerCase txt = toLowerCase (cond_value c) @ suf)
      else if cond_type c = ''keyword'' then
        (\<exists>tok \<in> set (split CHR '','' (cond_value c)).
           \<exists>pre suf. toLowerCase txt = pre @ toLowerCase (trim tok) @ suf)
      else True)"

section \<open>JSON values and the environment of the backend\<close>

text \<open>
  A request body is whatever JSON the client sent, or \<open>Undefined\<close> when it sent none.
  Numbers are integers here.
\<close>

datatype js = Undefined | Null | Bool bool | Num int | Str string | Arr "js list"
  | Obj "(string \<times> js) list"

text \<open>\<open>(x as any)?.field\<close>: the member of an object, \<open>undefined\<close> on anything else.\<close>

fun js_member :: "js \<Rightarrow> string \<Rightarrow> js" where
  "js_member (Obj kvs) k = (case map_of kvs k of Some v \<Rightarrow> v | None \<Rightarrow> Undefined)"
| "js_member _ k = Undefined"

fun truthy :: "js \<Rightarrow> bool" where
  "truthy Undefined = False"
| "truthy Null = False"
| "truthy (Bool b) = b"
| "truthy (Num n) = (n \<noteq> 0)"
| "truthy (Str s) = (s \<noteq> [])"
| "truthy (Arr xs) = True"
| "truthy (Obj kvs) = True"

text \<open>\<open>v || ''\<close>.\<close>

definition or_empty :: "js \<Rightarrow> js" where
  "or_empty v = (if truthy v then v else Str [])"

text \<open>
  \<open>v?.slice(0, 1000)\<close>: \<open>undefined\<close> on \<open>undefined\<close> and \<open>null\<close>, the first 1000
  elements of a string or an array, and a TypeError (\<open>None\<close>) on a boolean, a number or
  an object, which have no \<open>slice\<close> method.
\<close>

fun opt_slice :: "js \<Rightarrow> js option" where
  "opt_slice Undefined = Some Undefined"
| "opt_slice Null = Some Undefined"
| "opt_slice (Str s) = Some (Str (take 1000 s))"
| "opt_slice (Arr xs) = Some (Arr (take 1000 xs))"
| "opt_slice (Bool b) = None"
| "opt_slice (Num n) = None"
| "opt_slice (Obj kvs) = None"

subsection \<open>Decimal numbers and \<open>JSON.stringify\<close>\<close>

definition digit_char :: "nat \<Rightarrow> char" where
  "digit_char n = (''0123456789abcdef'' ! (n mod 16))"

fun show_nat :: "nat \<Rightarrow> string" where
  "show_nat n = (if n < 10 then [digit_char n] else show_nat (n div 10) @ [digit_char (n mod 10)])"

definition show_int :: "int \<Rightarrow> string" where
  "show_int i = (if i < 0 then CHR ''-'' # show_nat (nat (- i)) else show_nat (nat i))"

fun join :: "string \<Rightarrow> string list \<Rightarrow> string" where
  "join sep [] = []"
| "join sep [x] = x"
| "join sep (x # y # ys) = x @ sep @ join sep (y # ys)"

definition escape_char :: "char \<Rightarrow> string" where
  "escape_char c =
     (if c = CHR 0x22 then [CHR 0x5C, CHR 0x22]
      else if c = CHR 0x5C then [CHR 0x5C, CHR 0x5C]
      else if c = CHR 0x08 then [CHR 0x5C, CHR ''b'']
      else if c = CHR 0x0C then [CHR 0x5C, CHR ''f'']
      else if c = CHR 0x0A then [CHR 0x5C, CHR ''n'']
      else if c = CHR 0x0D then [CHR 0x5C, CHR ''r'']
      else if c = CHR 0x09 then [CHR 0x5C, CHR ''t'']
      else if (of_char c :: nat) < 32
        then [CHR 0x5C, CHR ''u'', CHR ''0'', CHR ''0'',
              digit_char ((of_char c :: nat) div 16), digit_char ((of_char c :: nat) mod 16)]
      else [c])"

definition quote :: "string \<Rightarrow> string" where
  "quote s = [CHR 0x22] @ concat (map escape_char s) @ [CHR 0x22]"

text \<open>
  \<open>JSON.stringify\<close> of a defined value. Inside an array \<open>undefined\<close> prints as
  \<open>null\<close>; a member of an object whose value is \<open>undefined\<close> is left out.
\<close>

primrec stringify :: "js \<Rightarrow> string" where
  "stringify Undefined = ''null''"
| "stringify Null = ''null''"
| "stringify (Bool b) = (if b then ''true'' else ''false'')"
| "stringify (Num n) = show_int n"
| "stringify (Str s) = quote s"
| "stringify (Arr xs) = ''['' @ join '','' (map stringify xs) @ '']''"
| "stringify (Obj kvs) =
     ''{'' @ join '',''
        (map (\<lambda>(k, v, s). quote k @ '':'' @ s)
           (filter (\<lambda>(k, v, s). v \<noteq> Undefined)
              (map (map_prod id (\<lambda>v. (v, stringify v))) kvs))) @ ''}''"

subsection \<open>Schema validation (zod)\<close>

text \<open>
  A validation error carries one issue per failing value: the path of the value and the
  code of the failure. The message of the error is the JSON text of its issues; the model
  keeps the issues themselves (\<open>ZodMessage\<close>).
\<close>

datatype issue_code = invalid_type | invalid_string | invalid_enum_value

type_synonym issue = "string list \<times> issue_code"

datatype message = Text string | ZodMessage "issue list"

datatype js_error = ZodError "issue list" | Error string

fun error_message :: "js_error \<Rightarrow> message" where
  "error_message (ZodError issues) = ZodMessage issues"
| "error_message (Error msg) = Text msg"

datatype fetch_result = Rejected string | Response nat string

record fetch_call =
  call_url :: string
  call_method :: string
  call_headers :: "(string \<times> string) list"
  call_payload :: "string option"

text \<open>
  What the handlers take from outside the repository: the formats \<open>z.string().url()\<close> and
  \<open>z.string().email()\<close> accept, and the answer of the network to a \<open>fetch\<close> (a rejection
  with the message of its exception, or a response with its status and body text).
\<close>

record env =
  isUrl :: "string \<Rightarrow> bool"
  isEmail :: "string \<Rightarrow> bool"
  fetch :: "fetch_call \<Rightarrow> fetch_result"

text \<open>
  A validator gives the parsed value or its issues, each with its path below the value
  that was checked; \<open>issue_at\<close> puts the name of the field in front.
\<close>

fun z_string :: "js \<Rightarrow> issue list + string" where
  "z_string (Str s) = Inr s"
| "z_string _ = Inl [([], invalid_type)]"

definition z_url :: "env \<Rightarrow> js \<Rightarrow> issue list + string" where
  "z_url e v =
     (case z_string v of
        Inl iss \<Rightarrow> Inl iss
      | Inr s \<Rightarrow> if isUrl e s then Inr s else Inl [([], invalid_string)])"

definition z_email :: "env \<Rightarrow> js \<Rightarrow> issue list + string" where
  "z_email e v =
     (case z_string v of
        Inl iss \<Rightarrow> Inl iss
      | Inr s \<Rightarrow> if isEmail e s then Inr s else Inl [([], invalid_string)])"

definition z_enum :: "string list \<Rightarrow> js \<Rightarrow> issue list + string" where
  "z_enum vals v =
     (case v of
        Str s \<Rightarrow> if s \<in> set vals then Inr s else Inl [([], invalid_enum_value)]
      | _ \<Rightarrow> Inl [([], invalid_type)])"

definition z_optional :: "(js \<Rightarrow> issue list + 'a) \<Rightarrow> js \<Rightarrow> issue list + 'a option" where
  "z_optional f v =
     (case v of
        Undefined \<Rightarrow> Inr None
      | _ \<Rightarrow> (case f v of Inl iss \<Rightarrow> Inl iss | Inr x \<Rightarrow> Inr (Some x)))"

definition z_default :: "'a \<Rightarrow> (js \<Rightarrow> issue list + 'a) \<Rightarrow> js \<Rightarrow> issue list + 'a" where
  "z_default d f v = (case v of Undefined \<Rightarrow> Inr d | _ \<Rightarrow> f v)"

text \<open>
  \<open>z.record(z.string())\<close>: an object all of whose values are strings. Every value that
  is not a string gives an issue of its own, at the path of its key.
\<close>

fun record_issues :: "(string \<times> js) list \<Rightarrow> issue list" where
  "record_issues [] = []"
| "record_issues ((k, Str s) # kvs) = record_issues kvs"
| "record_issues ((k, _) # kvs) = ([k], invalid_type) # record_issues kvs"

fun record_strings :: "(string \<times> js) list \<Rightarrow> (string \<times> string) list" where
  "record_strings [] = []"
| "record_strings ((k, Str s) # kvs) = (k, s) # record_strings kvs"
| "record_strings ((k, _) # kvs) = record_strings kvs"

definition z_record_string :: "js \<Rightarrow> issue list + (string \<times> string) list" where
  "z_record_string v =
     (case v of
        Obj kvs \<Rightarrow>
          if record_issues kvs = [] then Inr (record_strings kvs) else Inl (record_issues kvs)
      | _ \<Rightarrow> Inl [([], invalid_type)])"

fun issue_at :: "string \<Rightarrow> issue list + 'a \<Rightarrow> issue list" where
  "issue_at field (Inl iss) = map (\<lambda>(path, c). (field # path, c)) iss"
| "issue_at field (Inr x) = []"

definition not_an_object :: "issue list" where
  "not_an_object = [([], invalid_type)]"

definition discordWebhookSchema :: "env \<Rightarrow> js \<Rightarrow> issue list + (string \<times> string)" where
  "discordWebhookSchema e body =
     (case body of
        Obj kvs \<Rightarrow>
          (case (z_string (js_member body ''content''), z_url e (js_member body ''webhookUrl'')) of
             (Inr content, Inr webhookUrl) \<Rightarrow> Inr (content, webhookUrl)
           | (r1, r2) \<Rightarrow> Inl (issue_at ''content'' r1 @ issue_at ''webhookUrl'' r2))
      | _ \<Rightarrow> Inl not_an_object)"

definition telegramSchema :: "js \<Rightarrow> issue list + (string \<times> string \<times> string)" where
  "telegramSchema body =
     (case body of
        Obj kvs \<Rightarrow>
          (case (z_string (js_member body ''content''), z_string (js_member body ''botToken''),
                 z_string (js_member body ''chatId'')) of
             (Inr content, Inr botToken, Inr chatId) \<Rightarrow> Inr (content, botToken, chatId)
           | (r1, r2, r3) \<Rightarrow>
               Inl (issue_at ''content'' r1 @ issue_at ''botToken'' r2 @ issue_at ''chatId'' r3))
      | _ \<Rightarrow> Inl not_an_object)"

definition smsSchema :: "js \<Rightarrow> issue list + (string \<times> string)" where
  "smsSchema body =
     (case body of
        Obj kvs \<Rightarrow>
          (case (z_string (js_member body ''content''), z_string (js_member body ''phoneNumber''),
                 z_optional z_string (js_member body ''twilioAccountSid''),
                 z_optional z_string (js_member body ''twilioAuthToken'')) of
             (Inr content, Inr phoneNumber, Inr sid, Inr token) \<Rightarrow> Inr (content, phoneNumber)
           | (r1, r2, r3, r4) \<Rightarrow>
               Inl (issue_at ''content'' r1 @ issue_at ''phoneNumber'' r2 @
                    issue_at ''twilioAccountSid'' r3 @ issue_at ''twilioAuthToken'' r4))
      | _ \<Rightarrow> Inl not_an_object)"

definition emailSchema :: "env \<Rightarrow> js \<Rightarrow> issue list + (string \<times> string \<times> string)" where
  "emailSchema e body =
     (case body of
        Obj kvs \<Rightarrow>
          (case (z_email e (js_member body ''to''), z_string (js_member body ''subject''),
                 z_string (js_member body ''body''),
                 z_optional (z_enum [''sendgrid'', ''ses'', ''smtp'']) (js_member body ''provider'')) of
             (Inr to, Inr subject, Inr mail_body, Inr provider) \<Rightarrow> Inr (to, subject, mail_body)
           | (r1, r2, r3, r4) \<Rightarrow>
               Inl (issue_at ''to'' r1 @ issue_at ''subject'' r2 @ issue_at ''body'' r3 @
                    issue_at ''provider'' r4))
      | _ \<Rightarrow> Inl not_an_object)"

definition slackSchema :: "env \<Rightarrow> js \<Rightarrow> issue list + (string \<times> string)" where
  "slackSchema e body =
     (case body of
        Obj kvs \<Rightarrow>
          (case (z_string (js_member body ''content''), z_url e (js_member body ''webhookUrl'')) of
             (Inr content, Inr webhookUrl) \<Rightarrow> Inr (content, webhookUrl)
           | (r1, r2) \<Rightarrow> Inl (issue_at ''content'' r1 @ issue_at ''webhookUrl'' r2))
      | _ \<Rightarrow> Inl not_an_object)"

definition genericWebhookSchema ::
  "env \<Rightarrow> js \<Rightarrow> issue list + (string \<times> string \<times> (string \<times> string) list option \<times> js)" where
  "genericWebhookSchema e body =
     (case body of
        Obj kvs \<Rightarrow>
          (case (z_url e (js_member body ''url''),
                 z_default ''POST'' (z_enum [''GET'', ''POST'', ''PUT'', ''PATCH'', ''DELETE''])
                   (js_member body ''method''),
                 z_optional z_record_string (js_member body ''headers'')) of
             (Inr u, Inr m, Inr h) \<Rightarrow> Inr (u, m, h, js_member body ''body'')
           | (r1, r2, r3) \<Rightarrow>
               Inl (issue_at ''url'' r1 @ issue_at ''method'' r2 @ issue_at ''headers'' r3))
      | _ \<Rightarrow> Inl not_an_object)"

section \<open>The backend store and its handlers\<close>

text \<open>A row of \<open>messageLog\<close>: the delivery log entry. \<open>createdAt\<close> is set by the store.\<close>

record message_log =
  log_userId :: string
  log_channel :: string
  log_destination :: string
  log_content :: string
  log_status :: string
  log_error :: "message option"

record action =
  act_channel :: string
  act_destination :: string

text \<open>A row of \<open>routingRule\<close>.\<close>

record routing_rule =
  row_id :: string
  row_userId :: string
  row_name :: string
  row_conditions :: "condition list"
  row_actions :: "action list"
  row_priority :: int
  row_isEnabled :: bool

text \<open>
  What a handler can change: the two tables, and the requests sent to the network
  (\<open>fetched\<close>, in the order they were sent). Writing a row appends it and cannot fail.
\<close>

record world =
  routingRule :: "routing_rule list"
  messageLog :: "message_log list"
  fetched :: "fetch_call list"

datatype reply =
    Success
  | SuccessNote string
  | CustomResult bool nat string
  | TestResult bool string "action list"
  | NotFound
  | ServerError message
  | Unhandled

text \<open>
  The replies: \<open>{ success: true }\<close>, the same with a note, the custom webhook's
  \<open>{ success, status, response }\<close>, the dry run's \<open>{ matches, route: { name, actions } }\<close>,
  the 404 of an unknown rule, the 500 \<open>{ error: true, message }\<close> of a \<open>catch\<close> block, and
  \<open>Unhandled\<close> when an exception leaves the handler.
\<close>

definition create_log :: "message_log \<Rightarrow> world \<Rightarrow> world" where
  "create_log entry st = st\<lparr>messageLog := messageLog st @ [entry]\<rparr>"

definition do_fetch :: "fetch_call \<Rightarrow> world \<Rightarrow> world" where
  "do_fetch call st = st\<lparr>fetched := fetched st @ [call]\<rparr>"

definition response_ok :: "nat \<Rightarrow> bool" where
  "response_ok code = (200 \<le> code \<and> code \<le> 299)"

text \<open>
  The \<open>catch\<close> block of the discord, telegram and slack handlers. It reads the raw body
  again: the destination is \<open>body?.field || ''\<close> and the content is
  \<open>body?.content?.slice(0, 1000) || ''\<close>. The slice throws on a content that is a
  boolean, a number or an object, and the store refuses a destination or a content that
  is not a string; in both cases the exception leaves the handler and no row is written.
\<close>

definition log_failure ::
  "string \<Rightarrow> string \<Rightarrow> string \<Rightarrow> js \<Rightarrow> js_error \<Rightarrow> world \<Rightarrow> reply \<times> world" where
  "log_failure uid chan dest_field body err st =
     (let dest = or_empty (js_member body dest_field) in
      case opt_slice (js_member body ''content'') of
        None \<Rightarrow> (Unhandled, st)
      | Some sliced \<Rightarrow>
          (case (dest, or_empty sliced) of
             (Str d, Str c) \<Rightarrow>
               (ServerError (error_message err),
                create_log \<lparr>log_userId = uid, log_channel = chan, log_destination = d, log_content = c,
                            log_status = ''failed'', log_error = Some (error_message err)\<rparr> st)
           | _ \<Rightarrow> (Unhandled, st)))"

definition json_headers :: "(string \<times> string) list" where
  "json_headers = [(''Content-Type'', ''application/json'')]"

definition discord :: "env \<Rightarrow> string \<Rightarrow> js \<Rightarrow> world \<Rightarrow> reply \<times> world" where
  "discord e uid body st =
     (case discordWebhookSchema e body of
        Inl issues \<Rightarrow> log_failure uid ''discord'' ''webhookUrl'' body (ZodError issues) st
      | Inr (content, webhookUrl) \<Rightarrow>
          (let call = \<lparr>call_url = webhookUrl, call_method = ''POST'', call_headers = json_headers,
                        call_payload = Some (stringify (Obj [(''content'', Str content),
                                                        (''username'', Str ''ARIA Assistant'')]))\<rparr>;
               st1 = do_fetch call st
           in case fetch e call of
                Rejected msg \<Rightarrow> log_failure uid ''discord'' ''webhookUrl'' body (Error msg) st1
              | Response code txt \<Rightarrow>
                  if \<not> response_ok code then
                    log_failure uid ''discord'' ''webhookUrl'' body
                      (Error (''Discord webhook failed: '' @ show_nat code)) st1
                  else
                    (Success,
                     create_log \<lparr>log_userId = uid, log_channel = ''discord'', log_destination = webhookUrl,
                                 log_content = take 1000 content, log_status = ''sent'', log_error = None\<rparr> st1)))"

definition telegram :: "env \<Rightarrow> string \<Rightarrow> js \<Rightarrow> world \<Rightarrow> reply \<times> world" where
  "telegram e uid body st =
     (case telegramSchema body of
        Inl issues \<Rightarrow> log_failure uid ''telegram'' ''chatId'' body (ZodError issues) st
      | Inr (content, botToken, chatId) \<Rightarrow>
          (let call = \<lparr>call_url = ''https://api.telegram.org/bot'' @ botToken @ ''/sendMessage'',
                        call_method = ''POST'', call_headers = json_headers,
                        call_payload = Some (stringify (Obj [(''chat_id'', Str chatId),
                                                        (''text'', Str content),
                                                        (''parse_mode'', Str ''Markdown'')]))\<rparr>;
               st1 = do_fetch call st
           in case fetch e call of
                Rejected msg \<Rightarrow> log_failure uid ''telegram'' ''chatId'' body (Error msg) st1
              | Response code txt \<Rightarrow>
                  if \<not> response_ok code then
                    log_failure uid ''telegram'' ''chatId'' body
                      (Error (''Telegram API failed: '' @ show_nat code)) st1
                  else
                    (Success,
                     create_log \<lparr>log_userId = uid, log_channel = ''telegram'', log_destination = chatId,
                                 log_content = take 1000 content, log_status = ''sent'', log_error = None\<rparr> st1)))"

definition sms :: "string \<Rightarrow> js \<Rightarrow> world \<Rightarrow> reply \<times> world" where
  "sms uid body st =
     (case smsSchema body of
        Inl issues \<Rightarrow> (ServerError (error_message (ZodError issues)), st)
      | Inr (content, phoneNumber) \<Rightarrow>
          (SuccessNote ''Twilio integration required'',
           create_log \<lparr>log_userId = uid, log_channel = ''sms'', log_destination = phoneNumber,
                       log_content = take 1000 content, log_status = ''sent'', log_error = None\<rparr> st))"

definition email :: "env \<Rightarrow> string \<Rightarrow> js \<Rightarrow> world \<Rightarrow> reply \<times> world" where
  "email e uid body st =
     (case emailSchema e body of
        Inl issues \<Rightarrow> (ServerError (error_message (ZodError issues)), st)
      | Inr (to, subject, mail_body) \<Rightarrow>
          (SuccessNote ''Email provider integration required'',
           create_log \<lparr>log_userId = uid, log_channel = ''email'', log_destination = to,
                       log_content = subject, log_status = ''sent'', log_error = None\<rparr> st))"

definition slack :: "env \<Rightarrow> string \<Rightarrow> js \<Rightarrow> world \<Rightarrow> reply \<times> world" where
  "slack e uid body st =
     (case slackSchema e body of
        Inl issues \<Rightarrow> log_failure uid ''slack'' ''webhookUrl'' body (ZodError issues) st
      | Inr (content, webhookUrl) \<Rightarrow>
          (let call = \<lparr>call_url = webhookUrl, call_method = ''POST'', call_headers = json_headers,
                        call_payload = Some (stringify (Obj [(''text'', Str content)]))\<rparr>;
               st1 = do_fetch call st
           in case fetch e call of
                Rejected msg \<Rightarrow> log_failure uid ''slack'' ''webhookUrl'' body (Error msg) st1
              | Response code txt \<Rightarrow>
                  if \<not> response_ok code then
                    log_failure uid ''slack'' ''webhookUrl'' body
                      (Error (''Slack webhook failed: '' @ show_nat code)) st1
                  else
                    (Success,
                     create_log \<lparr>log_userId = uid, log_channel = ''slack'', log_destination = webhookUrl,
                                 log_content = take 1000 content, log_status = ''sent'', log_error = None\<rparr> st1)))"

text \<open>\<open>{ 'Content-Type': 'application/json', ...headers }\<close>: a later key replaces the value of an earlier one.\<close>

fun assign :: "(string \<times> string) list \<Rightarrow> string \<Rightarrow> string \<Rightarrow> (string \<times> string) list" where
  "assign [] k v = [(k, v)]"
| "assign ((k', v') # kvs) k v = (if k' = k then (k, v) # kvs else (k', v') # assign kvs k v)"

definition spread :: "(string \<times> string) list \<Rightarrow> (string \<times> string) list option \<Rightarrow> (string \<times> string) list" where
  "spread base extra =
     (case extra of None \<Rightarrow> base | Some kvs \<Rightarrow> foldl (\<lambda>acc (k, v). assign acc k v) base kvs)"

definition custom :: "env \<Rightarrow> string \<Rightarrow> js \<Rightarrow> world \<Rightarrow> reply \<times> world" where
  "custom e uid body st =
     (case genericWebhookSchema e body of
        Inl issues \<Rightarrow> (ServerError (error_message (ZodError issues)), st)
      | Inr (u, m, hdrs, b) \<Rightarrow>
          (let call = \<lparr>call_url = u, call_method = m, call_headers = spread json_headers hdrs,
                        call_payload = (if truthy b then Some (stringify b) else None)\<rparr>;
               st1 = do_fetch call st
           in case fetch e call of
                Rejected msg \<Rightarrow> (ServerError (error_message (Error msg)), st1)
              | Response code responseBody \<Rightarrow>
                  (CustomResult (response_ok code) code (take 1000 responseBody),
                   create_log
                     \<lparr>log_userId = uid, log_channel = ''webhook'', log_destination = u,
                      log_content = (if b = Undefined then [] else take 1000 (stringify b)),
                      log_status = (if response_ok code then ''sent'' else ''failed''),
                      log_error = (if response_ok code then None
                               else Some (Text (''HTTP '' @ show_nat code)))\<rparr> st1)))"

text \<open>
  The dry run \<open>POST /:id/test\<close>. Destructuring \<open>request.body\<close> throws when there is no
  body; a content that is not a string makes \<open>content.toLowerCase()\<close> throw.
\<close>

definition test_route :: "string \<Rightarrow> string \<Rightarrow> js \<Rightarrow> world \<Rightarrow> reply \<times> world" where
  "test_route uid rid body st =
     (if body = Undefined \<or> body = Null then (Unhandled, st)
      else
        (let content = js_member body ''content'' in
         case find (\<lambda>r. row_id r = rid \<and> row_userId r = uid) (routingRule st) of
           None \<Rightarrow> (NotFound, st)
         | Some route \<Rightarrow>
             (case content of
                Str c \<Rightarrow>
                  (TestResult (checkConditions c (row_conditions route)) (row_name route)
                     (row_actions route), st)
              | _ \<Rightarrow> (Unhandled, st))))"

section \<open>The mobile client (Swift)\<close>

datatype ConditionType = Contains | StartsWith | Sentiment | TimeOfDay | Keyword

text \<open>The raw values of the enumeration: the strings the backend stores.\<close>

fun rawValue :: "ConditionType \<Rightarrow> string" where
  "rawValue Contains = ''contains''"
| "rawValue StartsWith = ''starts_with''"
| "rawValue Sentiment = ''sentiment''"
| "rawValue TimeOfDay = ''time_of_day''"
| "rawValue Keyword = ''keyword''"

datatype Channel = Discord | Telegram | Sms | Email | Slack | Webhook

record Condition =
  ctype :: ConditionType
  cvalue :: string

record Action =
  action_channel :: Channel
  action_destination :: string

record RoutingRule =
  rule_id :: string
  rule_name :: string
  rule_conditions :: "Condition list"
  rule_actions :: "Action list"
  rule_isEnabled :: bool

text \<open>
  The string methods of the client on ASCII text: \<open>lowercased()\<close>, \<open>contains(_:)\<close> (a
  substring search), \<open>split(separator:)\<close>, which leaves the empty tokens out, and
  \<open>trimmingCharacters(in: .whitespaces)\<close>, which strips spaces and tabs but no line
  terminators.
\<close>

definition lowercased :: "string \<Rightarrow> string" where
  "lowercased s = map toLowerChar s"

definition contains_str :: "string \<Rightarrow> string \<Rightarrow> bool" where
  "contains_str s p = includes_str s p"

definition split_omitting_empty :: "char \<Rightarrow> string \<Rightarrow> string list" where
  "split_omitting_empty sep s = filter (\<lambda>t. t \<noteq> []) (split sep s)"

definition whitespaces :: "char \<Rightarrow> bool" where
  "whitespaces c = (c \<in> set [CHR 0x09, CHR 0x20])"

definition trimmingCharacters :: "(char \<Rightarrow> bool) \<Rightarrow> string \<Rightarrow> string" where
  "trimmingCharacters cs s = rev (dropWhile cs (rev (dropWhile cs s)))"

fun matchesRule_loop :: "string \<Rightarrow> Condition list \<Rightarrow> bool" where
  "matchesRule_loop content [] = True"
| "matchesRule_loop content (condition # rest) =
     (case ctype condition of
        Contains \<Rightarrow>
          (if \<not> contains_str (lowercased content) (lowercased (cvalue condition)) then False
           else matchesRule_loop content rest)
      | Keyword \<Rightarrow>
          (let keywords = map (\<lambda>k. lowercased (trimmingCharacters whitespaces k))
                              (split_omitting_empty CHR '','' (cvalue condition))
           in if \<not> list_ex (\<lambda>k. contains_str (lowercased content) k) keywords then False
              else matchesRule_loop content rest)
      | _ \<Rightarrow> matchesRule_loop content rest)"

definition matchesRule :: "string \<Rightarrow> RoutingRule \<Rightarrow> bool" where
  "matchesRule content rule = matchesRule_loop content (rule_conditions rule)"

text \<open>
  A dispatch is the call of the channel's send function with the content and the
  destination, as \<open>executeAction\<close> makes it. The effect of \<open>routeResponse\<close> is the
  sequence of these calls; a send function cannot throw, and what it then does on the
  network (only \<open>sendToDiscord\<close> has a body) is not part of the routing.
\<close>

datatype send_call =
    SendToDiscord string string
  | SendToTelegram string string
  | SendSMS string string
  | SendEmail string string
  | SendToSlack string string
  | SendToWebhook string string

fun send_for :: "Channel \<Rightarrow> string \<Rightarrow> string \<Rightarrow> send_call" where
  "send_for Discord c d = SendToDiscord c d"
| "send_for Telegram c d = SendToTelegram c d"
| "send_for Sms c d = SendSMS c d"
| "send_for Email c d = SendEmail c d"
| "send_for Slack c d = SendToSlack c d"
| "send_for Webhook c d = SendToWebhook c d"

definition executeAction :: "Action \<Rightarrow> string \<Rightarrow> send_call list \<Rightarrow> send_call list" where
  "executeAction a c sent = sent @ [send_for (action_channel a) c (action_destination a)]"

fun executeActions :: "Action list \<Rightarrow> string \<Rightarrow> send_call list \<Rightarrow> send_call list" where
  "executeActions [] c sent = sent"
| "executeActions (a # rest) c sent = executeActions rest c (executeAction a c sent)"

fun routeResponse :: "string \<Rightarrow> RoutingRule list \<Rightarrow> send_call list \<Rightarrow> send_call list" where
  "routeResponse response [] sent = sent"
| "routeResponse response (rule # rules) sent =
     (if rule_isEnabled rule then
        (if matchesRule response rule
         then routeResponse response rules (executeActions (rule_actions rule) response sent)
         else routeResponse response rules sent)
      else routeResponse response rules sent)"

section \<open>Reading a malformed body in the \<open>catch\<close> block\<close>

text \<open>
  Two notions used to state what \<open>log_failure\<close> does. A body is \<open>loggable\<close> when its
  content is absent, null or a string, and its destination member is a string or a falsy
  value: then the \<open>catch\<close> block gets two strings to store. \<open>str_or_empty\<close> is the string
  it stores for a member: the string itself, and the empty string for anything else.
\<close>

definition loggable :: "js \<Rightarrow> string \<Rightarrow> bool" where
  "loggable body dest_field =
     ((case js_member body ''content'' of
         Undefined \<Rightarrow> True | Null \<Rightarrow> True | Str s \<Rightarrow> True | _ \<Rightarrow> False) \<and>
      (case js_member body dest_field of Str s \<Rightarrow> True | v \<Rightarrow> \<not> truthy v))"

definition str_or_empty :: "js \<Rightarrow> string" where
  "str_or_empty v = (case v of Str s \<Rightarrow> s | _ \<Rightarrow> [])"

definition failed_entry :: "string \<Rightarrow> string \<Rightarrow> string \<Rightarrow> js \<Rightarrow> message \<Rightarrow> message_log" where
  "failed_entry uid chan dest_field body msg =
     \<lparr>log_userId = uid, log_channel = chan,
      log_destination = str_or_empty (js_member body dest_field),
      log_content = take 1000 (str_or_empty (js_member body ''content'')),
      log_status = ''failed'', log_error = Some msg\<rparr>"

text \<open>The rows a handler added to \<open>messageLog\<close>.\<close>

definition new_entries :: "world \<Rightarrow> reply \<times> world \<Rightarrow> message_log list" where
  "new_entries st res = drop (length (messageLog st)) (messageLog (snd res))"

text \<open>
  The row a delivery attempt leaves, given the answer of the network: \<open>sent\<close> on a 2xx
  response, \<open>failed\<close> with the message of the exception on a rejection, and \<open>failed\<close>
  with the handler's own message and the status on any other response.
\<close>

definition delivery_entry ::
  "string \<Rightarrow> string \<Rightarrow> string \<Rightarrow> string \<Rightarrow> string \<Rightarrow> fetch_result \<Rightarrow> message_log" where
  "delivery_entry uid chan dest c failure_prefix outcome =
     \<lparr>log_userId = uid, log_channel = chan, log_destination = dest, log_content = take 1000 c,
      log_status =
        (case outcome of
           Rejected msg \<Rightarrow> ''failed''
         | Response code txt \<Rightarrow> if response_ok code then ''sent'' else ''failed''),
      log_error =
        (case outcome of
           Rejected msg \<Rightarrow> Some (Text msg)
         | Response code txt \<Rightarrow>
             if response_ok code then None else Some (Text (failure_prefix @ show_nat code)))\<rparr>"

section \<open>Sample environments and data\<close>

text \<open>
  Concrete environments for the examples: one whose network is unreachable and one whose
  every request is answered with a given status. Their URL and e-mail formats are
  stand-ins, used on the sample inputs only.
\<close>

definition sample_isUrl :: "string \<Rightarrow> bool" where
  "sample_isUrl s = (startsWith s ''http://'' \<or> startsWith s ''https://'')"

definition sample_isEmail :: "string \<Rightarrow> bool" where
  "sample_isEmail s = (CHR ''@'' \<in> set s)"

definition offline :: env where
  "offline = \<lparr>isUrl = sample_isUrl, isEmail = sample_isEmail,
              fetch = (\<lambda>call. Rejected ''fetch failed'')\<rparr>"

definition answering :: "nat \<Rightarrow> env" where
  "answering code = \<lparr>isUrl = sample_isUrl, isEmail = sample_isEmail,
                     fetch = (\<lambda>call. Response code ''ok'')\<rparr>"

definition empty_world :: world where
  "empty_world = \<lparr>routingRule = [], messageLog = [], fetched = []\<rparr>"

definition bad_discord_body :: js where
  "bad_discord_body = Obj [(''content'', Str ''hi''), (''webhookUrl'', Str ''not a url'')]"

definition team_row :: routing_rule where
  "team_row =
     \<lparr>row_id = ''r1'', row_userId = ''u1'', row_name = ''Team updates'',
      row_conditions = [\<lparr>cond_type = ''contains'', cond_value = ''team''\<rparr>],
      row_actions = [\<lparr>act_channel = ''slack'', act_destination = ''https://hooks/x''\<rparr>],
      row_priority = 5, row_isEnabled = True\<rparr>"

definition stored :: world where
  "stored = \<lparr>routingRule = [team_row], messageLog = [], fetched = []\<rparr>"

definition renamed :: world where
  "renamed = \<lparr>routingRule = [team_row\<lparr>row_name := ''Other''\<rparr>], messageLog = [], fetched = []\<rparr>"

definition team_rule :: RoutingRule where
  "team_rule =
     \<lparr>rule_id = ''r1'', rule_name = ''Team'',
      rule_conditions = [\<lparr>ctype = Contains, cvalue = ''team''\<rparr>],
      rule_actions = [\<lparr>action_channel = Slack, action_destination = ''https://hooks/x''\<rparr>,
                      \<lparr>action_channel = Email, action_destination = ''team@example.com''\<rparr>],
      rule_isEnabled = True\<rparr>"

definition all_rule :: RoutingRule where
  "all_rule =
     \<lparr>rule_id = ''r2'', rule_name = ''Everything'', rule_conditions = [],
      rule_actions = [\<lparr>action_channel = Discord, action_destination = ''https://discord/y''\<rparr>],
      rule_isEnabled = True\<rparr>"

definition off_rule :: RoutingRule where
  "off_rule =
     \<lparr>rule_id = ''r3'', rule_name = ''Off'', rule_conditions = [],
      rule_actions = [\<lparr>action_channel = Sms, action_destination = ''+15550100''\<rparr>],
      rule_isEnabled = False\<rparr>"

section \<open>Facts about the string functions\<close>

lemma startsWith_iff: "startsWith s p \<longleftrightarrow> (\<exists>suf. s = p @ suf)"
  unfolding startsWith_def
  by (metis append_take_drop_id append_eq_conv_conj)

lemma includes_str_iff: "includes_str s p \<longleftrightarrow> (\<exists>pre suf. s = pre @ p @ suf)"
proof (induction s)
  case Nil
  then show ?case by simp
next
  case (Cons c cs)
  have "(\<exists>pre suf. c # cs = pre @ p @ suf) \<longleftrightarrow>
        (\<exists>suf. c # cs = p @ suf) \<or> (\<exists>pre suf. cs = pre @ p @ suf)"
  proof
    assume "\<exists>pre suf. c # cs = pre @ p @ suf"
    then obtain pre suf where e: "c # cs = pre @ p @ suf" by blast
    show "(\<exists>suf. c # cs = p @ suf) \<or> (\<exists>pre suf. cs = pre @ p @ suf)"
    proof (cases pre)
      case Nil
      with e show ?thesis by auto
    next
      case (Cons a pre')
      with e have "cs = pre' @ p @ suf" by simp
      then show ?thesis by blast
    qed
  next
    assume "(\<exists>suf. c # cs = p @ suf) \<or> (\<exists>pre suf. cs = pre @ p @ suf)"
    then show "\<exists>pre suf. c # cs = pre @ p @ suf"
    proof
      assume "\<exists>suf. c # cs = p @ suf"
      then obtain suf where "c # cs = [] @ p @ suf" by auto
      then show ?thesis by blast
    next
      assume "\<exists>pre suf. cs = pre @ p @ suf"
      then obtain pre suf where "c # cs = (c # pre) @ p @ suf" by auto
      then show ?thesis by blast
    qed
  qed
  with Cons show ?case by (simp add: startsWith_iff)
qed

text \<open>
  \<open>split\<close> cuts at the separators and nowhere else: joining the tokens with the separator
  gives the string back, and no token contains the separator. \<open>trim\<close> removes white
  space from the two ends only, and all of it.
\<close>

lemma split_not_Nil: "split sep s \<noteq> []"
  by (induction s) (simp_all split: list.splits)

lemma split_join: "join [sep] (split sep s) = s"
proof (induction s)
  case Nil
  show ?case by simp
next
  case (Cons c cs)
  obtain t ts where ts: "split sep cs = t # ts"
    using split_not_Nil [of sep cs] by (cases "split sep cs") auto
  with Cons show ?case by (cases ts) auto
qed

lemma split_no_separator: "t \<in> set (split sep s) \<Longrightarrow> sep \<notin> set t"
proof (induction s arbitrary: t)
  case Nil
  then show ?case by simp
next
  case (Cons c cs)
  obtain u us where us: "split sep cs = u # us"
    using split_not_Nil [of sep cs] by (cases "split sep cs") auto
  with Cons show ?case by (auto split: if_splits)
qed

lemma trim_decompose:
  "\<exists>l r. s = l @ trim s @ r \<and> list_all isWhiteSpace l \<and> list_all isWhiteSpace r"
proof -
  let ?a = "dropWhile isWhiteSpace s"
  have 1: "s = takeWhile isWhiteSpace s @ ?a" by simp
  have 2: "rev ?a = takeWhile isWhiteSpace (rev ?a) @ dropWhile isWhiteSpace (rev ?a)" by simp
  have "?a = rev (dropWhile isWhiteSpace (rev ?a)) @ rev (takeWhile isWhiteSpace (rev ?a))"
    by (metis 2 rev_append rev_rev_ident)
  then have 3: "?a = trim s @ rev (takeWhile isWhiteSpace (rev ?a))"
    by (simp add: trim_def)
  have "s = takeWhile isWhiteSpace s @ trim s @ rev (takeWhile isWhiteSpace (rev ?a))"
    using 1 3 by metis
  moreover have "list_all isWhiteSpace (takeWhile isWhiteSpace s)"
    by (simp add: list_all_iff) (meson set_takeWhileD)
  moreover have "list_all isWhiteSpace (rev (takeWhile isWhiteSpace (rev ?a)))"
    by (simp add: list_all_iff) (meson set_takeWhileD)
  ultimately show ?thesis by blast
qed

lemma trim_ends:
  assumes "trim s \<noteq> []"
  shows "\<not> isWhiteSpace (hd (trim s)) \<and> \<not> isWhiteSpace (last (trim s))"
proof -
  let ?a = "dropWhile isWhiteSpace s"
  let ?b = "dropWhile isWhiteSpace (rev ?a)"
  from assms have b: "?b \<noteq> []" by (simp add: trim_def)
  then have hb: "\<not> isWhiteSpace (hd ?b)" by (rule hd_dropWhile)
  have "last (trim s) = hd ?b" using b by (simp add: trim_def last_rev)
  with hb have l: "\<not> isWhiteSpace (last (trim s))" by simp
  have a: "?a \<noteq> []"
  proof
    assume "?a = []"
    then have "?b = []" by (simp only: rev.simps dropWhile.simps)
    with b show False by blast
  qed
  then have ha: "\<not> isWhiteSpace (hd ?a)" by (rule hd_dropWhile)
  have "\<exists>zs. rev ?a = zs @ ?b" by (metis takeWhile_dropWhile_id)
  then obtain zs where "rev ?a = zs @ ?b" by blast
  then have "?a = rev ?b @ rev zs" by (metis rev_append rev_rev_ident)
  then have "hd ?a = hd (rev ?b)" using b by (metis hd_append2 rev_is_Nil_conv)
  with ha have "\<not> isWhiteSpace (hd (trim s))" by (simp add: trim_def)
  with l show ?thesis by simp
qed

section \<open>The backend rule matcher: what it computes\<close>

lemma checkConditions_loop_spec:
  "checkConditions_loop (toLowerCase txt) conds = list_all (spec_evaluate txt) conds"
  by (induction conds)
     (simp_all add: spec_evaluate_def includes_str_iff startsWith_iff list_ex_iff Let_def)

lemma checkConditions_loop_append:
  "checkConditions_loop l (xs @ ys) = (checkConditions_loop l xs \<and> checkConditions_loop l ys)"
  by (induction xs) (simp_all add: Let_def)

lemmas eval_simps = checkConditions_def toLowerCase_def toLowerChar_def startsWith_def trim_def isWhiteSpace_def

text \<open>
  Claim C2. For every text and every list of conditions, \<open>checkConditions\<close> returns true
  if and only if every condition of the list evaluates to true, the evaluation being
  the specification's \<open>spec_evaluate\<close>; on the empty list it returns true for every text.
  The model is a total function without effects, so the order of evaluation and the early
  return are not observable beyond the result.
\<close>

theorem rule_matcher_conjunction:
  "(checkConditions txt conds \<longleftrightarrow> list_all (spec_evaluate txt) conds) \<and>
   checkConditions txt []"
  by (simp add: checkConditions_def checkConditions_loop_spec)

text \<open>
  The specification's example: a rule requiring \<open>contains "invoice"\<close> and
  \<open>starts_with "please"\<close> matches "Please process this invoice" and does not match
  "Please review this document".
\<close>

theorem rule_matcher_conjunction_witness:
  "checkConditions ''Please process this invoice''
     [\<lparr>cond_type = ''contains'', cond_value = ''invoice''\<rparr>,
      \<lparr>cond_type = ''starts_with'', cond_value = ''please''\<rparr>] \<and>
   list_all (spec_evaluate ''Please process this invoice'')
     [\<lparr>cond_type = ''contains'', cond_value = ''invoice''\<rparr>,
      \<lparr>cond_type = ''starts_with'', cond_value = ''please''\<rparr>] \<and>
   \<not> checkConditions ''Please review this document''
     [\<lparr>cond_type = ''contains'', cond_value = ''invoice''\<rparr>,
      \<lparr>cond_type = ''starts_with'', cond_value = ''please''\<rparr>] \<and>
   \<not> list_all (spec_evaluate ''Please review this document'')
     [\<lparr>cond_type = ''contains'', cond_value = ''invoice''\<rparr>,
      \<lparr>cond_type = ''starts_with'', cond_value = ''please''\<rparr>]"
  using rule_matcher_conjunction [of "''Please process this invoice''"
      "[\<lparr>cond_type = ''contains'', cond_value = ''invoice''\<rparr>,
        \<lparr>cond_type = ''starts_with'', cond_value = ''please''\<rparr>]"]
    rule_matcher_conjunction [of "''Please review this document''"
      "[\<lparr>cond_type = ''contains'', cond_value = ''invoice''\<rparr>,
        \<lparr>cond_type = ''starts_with'', cond_value = ''please''\<rparr>]"]
  by (simp add: eval_simps)

text \<open>
  Claim C3. A \<open>contains\<close> condition holds if and only if the lower-cased text contains
  the lower-cased value as a substring, and a \<open>starts_with\<close> condition if and only if the
  lower-cased text begins with the lower-cased value. Hence two texts and two values that
  differ only in the case of their letters (they have the same lower-casing) give the same
  result.
\<close>

theorem contains_starts_with:
  "(checkConditions txt [\<lparr>cond_type = ''contains'', cond_value = v\<rparr>] \<longleftrightarrow>
      (\<exists>pre suf. toLowerCase txt = pre @ toLowerCase v @ suf)) \<and>
   (checkConditions txt [\<lparr>cond_type = ''starts_with'', cond_value = v\<rparr>] \<longleftrightarrow>
      (\<exists>suf. toLowerCase txt = toLowerCase v @ suf)) \<and>
   (toLowerCase txt = toLowerCase txt' \<and> toLowerCase v = toLowerCase v' \<longrightarrow>
      checkConditions txt [\<lparr>cond_type = ''contains'', cond_value = v\<rparr>] =
        checkConditions txt' [\<lparr>cond_type = ''contains'', cond_value = v'\<rparr>] \<and>
      checkConditions txt [\<lparr>cond_type = ''starts_with'', cond_value = v\<rparr>] =
        checkConditions txt' [\<lparr>cond_type = ''starts_with'', cond_value = v'\<rparr>])"
  by (simp add: checkConditions_def includes_str_iff startsWith_iff)

text \<open>
  The specification's example "Hello World" against \<open>contains "hello"\<close>, in several
  casings, with instances that do not match: "world" is contained but is not a prefix, and
  "bye" is not contained.
\<close>

theorem contains_starts_with_witness:
  "toLowerCase ''Hello World'' = toLowerCase ''hELLO wORLD'' \<and>
   toLowerCase ''hello'' = toLowerCase ''HeLLo'' \<and>
   checkConditions ''Hello World'' [\<lparr>cond_type = ''contains'', cond_value = ''hello''\<rparr>] \<and>
   checkConditions ''hELLO wORLD'' [\<lparr>cond_type = ''contains'', cond_value = ''HeLLo''\<rparr>] \<and>
   checkConditions ''Hello World'' [\<lparr>cond_type = ''starts_with'', cond_value = ''hello''\<rparr>] \<and>
   checkConditions ''hELLO wORLD'' [\<lparr>cond_type = ''starts_with'', cond_value = ''HeLLo''\<rparr>] \<and>
   (\<exists>pre suf. toLowerCase ''Hello World'' = pre @ toLowerCase ''hello'' @ suf) \<and>
   checkConditions ''Hello World'' [\<lparr>cond_type = ''contains'', cond_value = ''WORLD''\<rparr>] \<and>
   \<not> checkConditions ''Hello World'' [\<lparr>cond_type = ''starts_with'', cond_value = ''WORLD''\<rparr>] \<and>
   \<not> checkConditions ''Hello World'' [\<lparr>cond_type = ''contains'', cond_value = ''bye''\<rparr>] \<and>
   \<not> (\<exists>suf. toLowerCase ''Hello World'' = toLowerCase ''WORLD'' @ suf)"
  using contains_starts_with [of "''Hello World''" "''hello''" "''hELLO wORLD''" "''HeLLo''"]
    contains_starts_with [of "''Hello World''" "''WORLD''" "''Hello World''" "''WORLD''"]
    contains_starts_with [of "''Hello World''" "''bye''" "''Hello World''" "''bye''"]
  by (simp add: eval_simps)

text \<open>
  Claim C4. A \<open>keyword\<close> condition holds if and only if at least one token of its value,
  split on commas, then trimmed of surrounding white space and lower-cased, is a substring
  of the lower-cased text.
\<close>

theorem keyword_any_token:
  "checkConditions txt [\<lparr>cond_type = ''keyword'', cond_value = v\<rparr>] \<longleftrightarrow>
     (\<exists>tok \<in> set (split CHR '','' v).
        \<exists>pre suf. toLowerCase txt = pre @ toLowerCase (trim tok) @ suf)"
  by (simp add: checkConditions_def includes_str_iff list_ex_iff Let_def)

text \<open>
  The specification's example, a text that holds no token, and a value whose token
  matches only once it is both trimmed and lower-cased.
\<close>

theorem keyword_any_token_witness:
  "checkConditions ''I need help urgently''
     [\<lparr>cond_type = ''keyword'', cond_value = ''urgent, asap, help''\<rparr>] \<and>
   (\<exists>tok \<in> set (split CHR '','' ''urgent, asap, help'').
      \<exists>pre suf. toLowerCase ''I need help urgently'' = pre @ toLowerCase (trim tok) @ suf) \<and>
   \<not> checkConditions ''all quiet''
     [\<lparr>cond_type = ''keyword'', cond_value = ''urgent, asap, help''\<rparr>] \<and>
   checkConditions ''Call me ASAP'' [\<lparr>cond_type = ''keyword'', cond_value = ''later ,  Asap ''\<rparr>] \<and>
   map (\<lambda>k. toLowerCase (trim k)) (split CHR '','' ''later ,  Asap '') = [''later'', ''asap''] \<and>
   \<not> includes_str (toLowerCase ''Call me ASAP'') ''  Asap '' \<and>
   \<not> includes_str (toLowerCase ''Call me ASAP'') (trim ''  Asap '') \<and>
   \<not> includes_str (toLowerCase ''Call me ASAP'') (toLowerCase ''  Asap '')"
  using keyword_any_token [of "''I need help urgently''" "''urgent, asap, help''"]
    keyword_any_token [of "''all quiet''" "''urgent, asap, help''"]
    keyword_any_token [of "''Call me ASAP''" "''later ,  Asap ''"]
  by (simp add: eval_simps)

text \<open>
  Claim C5. A condition whose type is \<open>sentiment\<close>, \<open>time_of_day\<close> or any string other
  than \<open>contains\<close>, \<open>starts_with\<close> and \<open>keyword\<close> evaluates to true for every text, and
  its presence anywhere in a condition list does not change the matcher's result.
\<close>

theorem fail_open:
  assumes "cond_type c = ''sentiment'' \<or> cond_type c = ''time_of_day'' \<or>
           (cond_type c \<noteq> ''contains'' \<and> cond_type c \<noteq> ''starts_with'' \<and>
            cond_type c \<noteq> ''keyword'')"
  shows "checkConditions txt [c] \<and>
         checkConditions txt (before @ c # after) = checkConditions txt (before @ after)"
proof -
  from assms have t: "cond_type c \<noteq> ''contains''" "cond_type c \<noteq> ''starts_with''"
    "cond_type c \<noteq> ''keyword''"
    by auto
  then have "checkConditions_loop l (c # rest) = checkConditions_loop l rest" for l rest
    by simp
  then show ?thesis
    by (simp add: checkConditions_def checkConditions_loop_append del: checkConditions_loop.simps(2))
qed

theorem fail_open_witness:
  "checkConditions ''anything'' [\<lparr>cond_type = ''sentiment'', cond_value = ''positive''\<rparr>] \<and>
   checkConditions ''anything'' [\<lparr>cond_type = ''time_of_day'', cond_value = ''morning''\<rparr>] \<and>
   checkConditions ''anything'' [\<lparr>cond_type = ''regex'', cond_value = ''^x''\<rparr>] \<and>
   checkConditions ''anything''
     ([\<lparr>cond_type = ''contains'', cond_value = ''thing''\<rparr>] @
      \<lparr>cond_type = ''sentiment'', cond_value = ''positive''\<rparr> #
      [\<lparr>cond_type = ''starts_with'', cond_value = ''any''\<rparr>]) =
     checkConditions ''anything''
     ([\<lparr>cond_type = ''contains'', cond_value = ''thing''\<rparr>] @
      [\<lparr>cond_type = ''starts_with'', cond_value = ''any''\<rparr>])"
  using fail_open [of "\<lparr>cond_type = ''sentiment'', cond_value = ''positive''\<rparr>" "''anything''"
      "[\<lparr>cond_type = ''contains'', cond_value = ''thing''\<rparr>]"
      "[\<lparr>cond_type = ''starts_with'', cond_value = ''any''\<rparr>]"]
    fail_open [of "\<lparr>cond_type = ''time_of_day'', cond_value = ''morning''\<rparr>" "''anything''" "[]" "[]"]
    fail_open [of "\<lparr>cond_type = ''regex'', cond_value = ''^x''\<rparr>" "''anything''" "[]" "[]"]
  by simp

section \<open>The mobile client: routing\<close>

lemma executeActions_eq:
  "executeActions as c sent =
     sent @ map (\<lambda>a. send_for (action_channel a) c (action_destination a)) as"
  by (induction as arbitrary: sent) (simp_all add: executeAction_def)

lemma routeResponse_eq:
  "routeResponse response rules sent =
     sent @ concat (map (\<lambda>rule.
        if rule_isEnabled rule \<and> matchesRule response rule
        then map (\<lambda>a. send_for (action_channel a) response (action_destination a))
               (rule_actions rule)
        else []) rules)"
  by (induction rules arbitrary: sent) (simp_all add: executeActions_eq)

lemmas mobile_simps = matchesRule_def lowercased_def contains_str_def toLowerChar_def
  startsWith_def split_omitting_empty_def trimmingCharacters_def whitespaces_def

text \<open>
  Claim C6. \<open>routeResponse\<close> goes through all the rules in order. A rule that is enabled
  and matches dispatches every one of its actions, in the order of its list, and the rules
  after it are still processed; a rule that is disabled or does not match dispatches
  nothing. Hence the calls made are the concatenation, over the rules in order, of the
  actions of the enabled matching rules, and a disabled rule can be removed from the rule
  set without changing the calls for any response. The mobile client writes no delivery log.
\<close>

theorem routeResponse_fan_out:
  "routeResponse response rules sent =
     sent @ concat (map (\<lambda>rule.
        if rule_isEnabled rule \<and> matchesRule response rule
        then map (\<lambda>a. send_for (action_channel a) response (action_destination a))
               (rule_actions rule)
        else []) rules) \<and>
   (\<not> rule_isEnabled r \<longrightarrow>
      routeResponse response (before @ r # after) sent =
        routeResponse response (before @ after) sent)"
  by (simp add: routeResponse_eq)

text \<open>
  Three rules, the second disabled: the first and the third both match and both fire, all
  their actions in order; the disabled rule, whose empty condition list would match, adds
  nothing.
\<close>

theorem routeResponse_fan_out_witness:
  "\<not> rule_isEnabled off_rule \<and>
   routeResponse ''Send update to the team'' [team_rule, off_rule, all_rule] [] =
     [SendToSlack ''Send update to the team'' ''https://hooks/x'',
      SendEmail ''Send update to the team'' ''team@example.com'',
      SendToDiscord ''Send update to the team'' ''https://discord/y''] \<and>
   routeResponse ''Send update to the team'' ([team_rule] @ off_rule # [all_rule]) [] =
     routeResponse ''Send update to the team'' ([team_rule] @ [all_rule]) []"
  using routeResponse_fan_out [of "''Send update to the team''" "[team_rule, off_rule, all_rule]" "[]"
      off_rule "[team_rule]" "[all_rule]"]
  by (simp add: team_rule_def all_rule_def off_rule_def mobile_simps)

text \<open>
  Claim C10. The backend matcher and the mobile matcher are not equivalent: a
  \<open>starts_with\<close> condition is tested by \<open>checkConditions\<close> but falls into the
  \<open>default\<close> branch of \<open>matchesRule\<close>. On the text "hello" and the single condition
  \<open>starts_with "please"\<close> the backend answers false and the mobile client true.
\<close>

theorem matchers_differ_on_starts_with:
  "checkConditions ''hello'' [\<lparr>cond_type = rawValue StartsWith, cond_value = ''please''\<rparr>] = False \<and>
   matchesRule ''hello''
     \<lparr>rule_id = ''r1'', rule_name = ''Polite'',
      rule_conditions = [\<lparr>ctype = StartsWith, cvalue = ''please''\<rparr>],
      rule_actions = [], rule_isEnabled = True\<rparr> = True"
  by (simp add: eval_simps matchesRule_def)

section \<open>The delivery handlers\<close>

lemmas schema_simps = discordWebhookSchema_def telegramSchema_def smsSchema_def emailSchema_def
  slackSchema_def genericWebhookSchema_def z_url_def z_email_def z_enum_def z_optional_def
  z_default_def z_record_string_def not_an_object_def

lemmas handler_simps = discord_def telegram_def sms_def email_def slack_def custom_def
  log_failure_def create_log_def do_fetch_def response_ok_def or_empty_def json_headers_def
  spread_def

lemmas sample_simps = offline_def answering_def empty_world_def sample_isUrl_def
  sample_isEmail_def startsWith_def

text \<open>
  The \<open>catch\<close> block of the discord, telegram and slack handlers writes one \<open>failed\<close>
  row when the body is loggable, and otherwise throws itself and writes nothing.
\<close>

lemma log_failure_cases:
  "log_failure uid chan dest_field body err st =
     (if loggable body dest_field
      then (ServerError (error_message err),
            create_log (failed_entry uid chan dest_field body (error_message err)) st)
      else (Unhandled, st))"
proof -
  obtain c where c: "js_member body ''content'' = c" by simp
  obtain d where d: "js_member body dest_field = d" by simp
  show ?thesis
    unfolding log_failure_def loggable_def failed_entry_def str_or_empty_def or_empty_def Let_def c d
    by (cases c; cases d) simp_all
qed

subsection \<open>One row per delivery attempt\<close>

text \<open>
  A body that passes the schema of the discord, telegram or slack handler leaves exactly
  one row, whatever the network answers: the row of \<open>delivery_entry\<close>.
\<close>

lemma z_string_Inr: "z_string v = Inr s \<longleftrightarrow> v = Str s"
  by (cases v) simp_all

lemma discordWebhookSchema_Inr:
  "discordWebhookSchema e body = Inr (c, u) \<Longrightarrow>
     js_member body ''content'' = Str c \<and> js_member body ''webhookUrl'' = Str u"
  unfolding discordWebhookSchema_def z_url_def
  by (auto split: js.splits sum.splits if_splits simp: z_string_Inr)

lemma slackSchema_Inr:
  "slackSchema e body = Inr (c, u) \<Longrightarrow>
     js_member body ''content'' = Str c \<and> js_member body ''webhookUrl'' = Str u"
  unfolding slackSchema_def z_url_def
  by (auto split: js.splits sum.splits if_splits simp: z_string_Inr)

lemma telegramSchema_Inr:
  "telegramSchema body = Inr (c, t, i) \<Longrightarrow>
     js_member body ''content'' = Str c \<and> js_member body ''chatId'' = Str i"
  unfolding telegramSchema_def
  by (auto split: js.splits sum.splits if_splits simp: z_string_Inr)

lemma log_failure_strings:
  assumes "js_member body ''content'' = Str c" and "js_member body f = Str d"
  shows "log_failure uid chan f body err st =
           (ServerError (error_message err),
            create_log \<lparr>log_userId = uid, log_channel = chan, log_destination = d,
                        log_content = take 1000 c, log_status = ''failed'',
                        log_error = Some (error_message err)\<rparr> st)"
  using assms by (simp add: log_failure_cases loggable_def failed_entry_def str_or_empty_def)

lemma new_entries_simps:
  "new_entries st (r, st) = []"
  "new_entries st (r, do_fetch call st) = []"
  "new_entries st (r, create_log entry st) = [entry]"
  "new_entries st (r, create_log entry (do_fetch call st)) = [entry]"
  by (simp_all add: new_entries_def create_log_def do_fetch_def)

lemma discord_logs_once:
  assumes "discordWebhookSchema e body = Inr (c, u)"
  shows "new_entries st (discord e uid body st) =
           [delivery_entry uid ''discord'' u c ''Discord webhook failed: ''
              (fetch e \<lparr>call_url = u, call_method = ''POST'', call_headers = json_headers,
                         call_payload = Some (stringify (Obj [(''content'', Str c),
                                                    (''username'', Str ''ARIA Assistant'')]))\<rparr>)]"
proof -
  from discordWebhookSchema_Inr [OF assms]
  have m: "js_member body ''content'' = Str c" "js_member body ''webhookUrl'' = Str u"
    by simp_all
  show ?thesis
    unfolding discord_def assms
    by (simp add: log_failure_strings [OF m] Let_def delivery_entry_def new_entries_simps
          del: stringify.simps split: fetch_result.splits)
qed

lemma telegram_logs_once:
  assumes "telegramSchema body = Inr (c, t, i)"
  shows "new_entries st (telegram e uid body st) =
           [delivery_entry uid ''telegram'' i c ''Telegram API failed: ''
              (fetch e \<lparr>call_url = ''https://api.telegram.org/bot'' @ t @ ''/sendMessage'',
                         call_method = ''POST'', call_headers = json_headers,
                         call_payload = Some (stringify (Obj [(''chat_id'', Str i),
                                                    (''text'', Str c),
                                                    (''parse_mode'', Str ''Markdown'')]))\<rparr>)]"
proof -
  from telegramSchema_Inr [OF assms]
  have m: "js_member body ''content'' = Str c" "js_member body ''chatId'' = Str i"
    by simp_all
  show ?thesis
    unfolding telegram_def assms
    by (simp add: log_failure_strings [OF m] Let_def delivery_entry_def new_entries_simps
          del: stringify.simps split: fetch_result.splits)
qed

lemma slack_logs_once:
  assumes "slackSchema e body = Inr (c, u)"
  shows "new_entries st (slack e uid body st) =
           [delivery_entry uid ''slack'' u c ''Slack webhook failed: ''
              (fetch e \<lparr>call_url = u, call_method = ''POST'', call_headers = json_headers,
                         call_payload = Some (stringify (Obj [(''text'', Str c)]))\<rparr>)]"
proof -
  from slackSchema_Inr [OF assms]
  have m: "js_member body ''content'' = Str c" "js_member body ''webhookUrl'' = Str u"
    by simp_all
  show ?thesis
    unfolding slack_def assms
    by (simp add: log_failure_strings [OF m] Let_def delivery_entry_def new_entries_simps
          del: stringify.simps split: fetch_result.splits)
qed

text \<open>
  The custom webhook handler has no such row for a rejected \<open>fetch\<close>: its \<open>catch\<close>
  block only replies.
\<close>

lemma custom_rejected_logs_nothing:
  assumes "genericWebhookSchema e body = Inr (u, m, hdrs, b)"
    and "fetch e \<lparr>call_url = u, call_method = m, call_headers = spread json_headers hdrs,
                   call_payload = (if truthy b then Some (stringify b) else None)\<rparr> = Rejected msg"
  shows "new_entries st (custom e uid body st) = [] \<and>
         fst (custom e uid body st) = ServerError (Text msg)"
  unfolding custom_def assms(1)
  using assms(2) by (simp add: Let_def new_entries_simps)

text \<open>
  Claim C1. Not every delivery attempt leaves exactly one log entry. The custom webhook
  handler, given a valid payload and a network that rejects the request, answers 500 with
  the message of the exception and writes no row. On the same network the discord handler
  writes one \<open>failed\<close> row with that message, and the custom webhook handler itself
  writes a \<open>failed\<close> row when the network answers 404.
\<close>

theorem custom_network_error_not_logged:
  "custom offline ''u1'' (Obj [(''url'', Str ''https://example.invalid/hook'')]) empty_world =
     (ServerError (Text ''fetch failed''),
      \<lparr>routingRule = [], messageLog = [],
       fetched = [\<lparr>call_url = ''https://example.invalid/hook'', call_method = ''POST'',
                   call_headers = [(''Content-Type'', ''application/json'')],
                   call_payload = None\<rparr>]\<rparr>) \<and>
   messageLog (snd (discord offline ''u1''
       (Obj [(''content'', Str ''hi''), (''webhookUrl'', Str ''https://example.invalid/hook'')])
       empty_world)) =
     [\<lparr>log_userId = ''u1'', log_channel = ''discord'',
       log_destination = ''https://example.invalid/hook'', log_content = ''hi'',
       log_status = ''failed'', log_error = Some (Text ''fetch failed'')\<rparr>] \<and>
   messageLog (snd (custom (answering 404) ''u1''
       (Obj [(''url'', Str ''https://example.invalid/hook'')]) empty_world)) =
     [\<lparr>log_userId = ''u1'', log_channel = ''webhook'',
       log_destination = ''https://example.invalid/hook'', log_content = [],
       log_status = ''failed'', log_error = Some (Text ''HTTP 404'')\<rparr>]"
  by (simp add: schema_simps handler_simps sample_simps digit_char_def)

subsection \<open>Payloads that fail validation\<close>

text \<open>
  On a payload that fails their schema, the sms, email and custom webhook handlers
  answer 500 with the validation message and write no row.
\<close>

lemma validation_failure_not_logged:
  "smsSchema body = Inl issues \<Longrightarrow> sms uid body st = (ServerError (ZodMessage issues), st)"
  "emailSchema e body = Inl issues \<Longrightarrow> email e uid body st = (ServerError (ZodMessage issues), st)"
  "genericWebhookSchema e body = Inl issues \<Longrightarrow>
     custom e uid body st = (ServerError (ZodMessage issues), st)"
  by (simp_all add: sms_def email_def custom_def)

text \<open>
  The discord, telegram and slack handlers parse inside the \<open>try\<close> whose \<open>catch\<close> logs
  the failure: on a loggable body that fails the schema they write a \<open>failed\<close> row whose
  error is the validation message, before any request is sent.
\<close>

lemma validation_failure_logged:
  assumes "loggable body ''webhookUrl''"
  shows "discordWebhookSchema e body = Inl issues \<Longrightarrow>
           discord e uid body st =
             (ServerError (ZodMessage issues),
              create_log (failed_entry uid ''discord'' ''webhookUrl'' body (ZodMessage issues)) st)"
    and "slackSchema e body = Inl issues \<Longrightarrow>
           slack e uid body st =
             (ServerError (ZodMessage issues),
              create_log (failed_entry uid ''slack'' ''webhookUrl'' body (ZodMessage issues)) st)"
  using assms by (simp_all add: discord_def slack_def log_failure_cases)

lemma validation_failure_logged_telegram:
  assumes "loggable body ''chatId''" and "telegramSchema body = Inl issues"
  shows "telegram e uid body st =
           (ServerError (ZodMessage issues),
            create_log (failed_entry uid ''telegram'' ''chatId'' body (ZodMessage issues)) st)"
  using assms by (simp add: telegram_def log_failure_cases)

text \<open>
  The issues of a record are reported value by value: a header that is not a string is
  reported at the path of its key.
\<close>

lemma header_issue_path:
  "custom offline ''u1''
     (Obj [(''url'', Str ''ftp''), (''method'', Str ''HEAD''),
           (''headers'', Obj [(''a'', Num 1), (''b'', Str ''x''), (''c'', Bool True)])])
     empty_world =
   (ServerError (ZodMessage [([''url''], invalid_string), ([''method''], invalid_enum_value),
                             ([''headers'', ''a''], invalid_type),
                             ([''headers'', ''c''], invalid_type)]),
    empty_world)"
  by (simp add: schema_simps handler_simps sample_simps)

text \<open>
  Claim C7. A validation error is recorded as a delivery attempt by the discord handler:
  a payload whose \<open>webhookUrl\<close> is not a URL fails the schema, no request is sent, and the
  handler writes a \<open>failed\<close> row whose error is the validation message and answers 500
  with it. The sms handler, given a payload that fails its schema, answers 500 with the
  validation message, field by field, and writes no row.
\<close>

theorem validation_error_logged_by_discord:
  "discordWebhookSchema offline bad_discord_body = Inl [([''webhookUrl''], invalid_string)] \<and>
   discord offline ''u1'' bad_discord_body empty_world =
     (ServerError (ZodMessage [([''webhookUrl''], invalid_string)]),
      \<lparr>routingRule = [],
       messageLog = [\<lparr>log_userId = ''u1'', log_channel = ''discord'',
                      log_destination = ''not a url'', log_content = ''hi'',
                      log_status = ''failed'',
                      log_error = Some (ZodMessage [([''webhookUrl''], invalid_string)])\<rparr>],
       fetched = []\<rparr>) \<and>
   sms ''u1'' (Obj []) empty_world =
     (ServerError (ZodMessage [([''content''], invalid_type), ([''phoneNumber''], invalid_type)]),
      empty_world)"
  by (simp add: bad_discord_body_def schema_simps handler_simps sample_simps)

subsection \<open>The length of the stored content\<close>

text \<open>
  The discord, telegram, sms, slack and custom webhook handlers store at most 1000
  characters of content in every row they write.
\<close>

lemma discord_content_bounded:
  "list_all (\<lambda>entry. length (log_content entry) \<le> 1000) (new_entries st (discord e uid body st))"
proof (cases "discordWebhookSchema e body")
  case (Inl issues)
  then show ?thesis
    by (simp add: discord_def log_failure_cases failed_entry_def new_entries_simps)
next
  case (Inr r)
  then obtain c u where "discordWebhookSchema e body = Inr (c, u)" by (cases r) simp
  from discord_logs_once [OF this] show ?thesis by (simp add: delivery_entry_def)
qed

lemma telegram_content_bounded:
  "list_all (\<lambda>entry. length (log_content entry) \<le> 1000) (new_entries st (telegram e uid body st))"
proof (cases "telegramSchema body")
  case (Inl issues)
  then show ?thesis
    by (simp add: telegram_def log_failure_cases failed_entry_def new_entries_simps)
next
  case (Inr r)
  then obtain c t i where "telegramSchema body = Inr (c, t, i)" by (cases r) auto
  from telegram_logs_once [OF this] show ?thesis by (simp add: delivery_entry_def)
qed

lemma slack_content_bounded:
  "list_all (\<lambda>entry. length (log_content entry) \<le> 1000) (new_entries st (slack e uid body st))"
proof (cases "slackSchema e body")
  case (Inl issues)
  then show ?thesis
    by (simp add: slack_def log_failure_cases failed_entry_def new_entries_simps)
next
  case (Inr r)
  then obtain c u where "slackSchema e body = Inr (c, u)" by (cases r) simp
  from slack_logs_once [OF this] show ?thesis by (simp add: delivery_entry_def)
qed

lemma sms_content_bounded:
  "list_all (\<lambda>entry. length (log_content entry) \<le> 1000) (new_entries st (sms uid body st))"
  by (cases "smsSchema body") (auto simp: sms_def new_entries_simps)

lemma custom_content_bounded:
  "list_all (\<lambda>entry. length (log_content entry) \<le> 1000) (new_entries st (custom e uid body st))"
proof (cases "genericWebhookSchema e body")
  case (Inl issues)
  then show ?thesis by (simp add: custom_def new_entries_simps)
next
  case (Inr r)
  then obtain u m hdrs b where "genericWebhookSchema e body = Inr (u, m, hdrs, b)"
    by (cases r) auto
  then show ?thesis
    by (simp add: custom_def Let_def new_entries_simps del: stringify.simps
          split: fetch_result.splits)
qed

text \<open>
  Claim C8. The bound does not hold for the email handler, which stores the subject as
  it is: a subject of 1001 characters gives a row whose content has 1001 characters, where
  the sms handler cuts the same content to 1000.
\<close>

theorem email_content_not_truncated:
  "map (\<lambda>entry. (log_channel entry, length (log_content entry)))
     (messageLog (snd (email offline ''u1''
        (Obj [(''to'', Str ''a@b.co''), (''subject'', Str (replicate 1001 CHR ''x'')),
              (''body'', Str '''')]) empty_world))) = [(''email'', 1001)] \<and>
   map (\<lambda>entry. (log_channel entry, length (log_content entry)))
     (messageLog (snd (sms ''u1''
        (Obj [(''phoneNumber'', Str ''+15550100''), (''content'', Str (replicate 1001 CHR ''x''))])
        empty_world))) = [(''sms'', 1000)]"
  by (simp add: schema_simps handler_simps sample_simps)

section \<open>The dry run of a rule\<close>

text \<open>
  Claim C9, as the code has it. The dry run never changes the stored rules, the delivery
  log or the requests sent. For a rule of the caller and a text, its reply holds the
  result of \<open>checkConditions\<close> on the text and the rule's conditions, together with the
  rule's name and actions.
\<close>

theorem testRule_dry_run:
  "snd (test_route uid rid body st) = st \<and>
   (find (\<lambda>r. row_id r = rid \<and> row_userId r = uid) (routingRule st) = Some route \<and>
    js_member body ''content'' = Str txt \<longrightarrow>
      test_route uid rid body st =
        (TestResult (checkConditions txt (row_conditions route)) (row_name route)
           (row_actions route), st))"
  by (auto simp: test_route_def Let_def split: option.splits js.splits)

theorem testRule_dry_run_witness:
  "find (\<lambda>r. row_id r = ''r1'' \<and> row_userId r = ''u1'') (routingRule stored) = Some team_row \<and>
   js_member (Obj [(''content'', Str ''Send update to the team'')]) ''content'' =
     Str ''Send update to the team'' \<and>
   test_route ''u1'' ''r1'' (Obj [(''content'', Str ''Send update to the team'')]) stored =
     (TestResult True ''Team updates''
        [\<lparr>act_channel = ''slack'', act_destination = ''https://hooks/x''\<rparr>], stored) \<and>
   snd (test_route ''u1'' ''r9'' (Obj [(''content'', Str ''x'')]) stored) = stored"
  using testRule_dry_run [of "''u1''" "''r1''" "Obj [(''content'', Str ''Send update to the team'')]"
      stored team_row "''Send update to the team''"]
    testRule_dry_run [of "''u1''" "''r9''" "Obj [(''content'', Str ''x'')]" stored]
  by (simp add: stored_def team_row_def eval_simps)

text \<open>
  Claim C9, as stated, fails in that the reply is not the matcher's boolean alone: two
  rules with the same conditions and different names give the same boolean and different
  replies.
\<close>

theorem testRule_reply_carries_rule:
  "checkConditions ''Send update to the team'' (row_conditions team_row) =
     checkConditions ''Send update to the team'' (row_conditions (team_row\<lparr>row_name := ''Other''\<rparr>)) \<and>
   fst (test_route ''u1'' ''r1'' (Obj [(''content'', Str ''Send update to the team'')]) stored) =
     TestResult True ''Team updates'' [\<lparr>act_channel = ''slack'', act_destination = ''https://hooks/x''\<rparr>] \<and>
   fst (test_route ''u1'' ''r1'' (Obj [(''content'', Str ''Send update to the team'')]) renamed) =
     TestResult True ''Other'' [\<lparr>act_channel = ''slack'', act_destination = ''https://hooks/x''\<rparr>] \<and>
   fst (test_route ''u1'' ''r1'' (Obj [(''content'', Str ''Send update to the team'')]) stored) \<noteq>
     fst (test_route ''u1'' ''r1'' (Obj [(''content'', Str ''Send update to the team'')]) renamed)"
  by (simp add: test_route_def stored_def renamed_def team_row_def eval_simps)

end
